theory Spec2Isabelle
  imports Main "HOL-Library.Sublist" "HOL-Library.AList"
begin

section \<open>Python values and string helpers\<close>

text \<open>
  Strings are lists of 8-bit characters read as code points below 256. Dictionaries are
  association lists with distinct keys in insertion order; \<open>d[k] = v\<close> is
  \<^const>\<open>AList.update\<close> (replace in place, or append). Floating-point values are
  outside the model.
\<close>

datatype json =
    JNull
  | JBool bool
  | JInt int
  | JStr string
  | JList "json list"
  | JDict "(string \<times> json) list"

type_synonym py_dict = "(string \<times> json) list"

text \<open>\<^verbatim>\<open>s.replace(a, b)\<close> for one-character \<open>a\<close> and \<open>b\<close>.\<close>

definition replace_char :: "char \<Rightarrow> char \<Rightarrow> string \<Rightarrow> string" where
  "replace_char a b s = map (\<lambda>c. if c = a then b else c) s"

text \<open>\<^verbatim>\<open>s.lower()\<close> on code points below 256: A-Z, and the Latin-1 capitals
  0xC0-0xDE except the multiplication sign 0xD7, move up by 0x20.\<close>

definition lower_char :: "char \<Rightarrow> char" where
  "lower_char c =
     (let n = of_char c :: nat
      in if (65 \<le> n \<and> n \<le> 90) \<or> (192 \<le> n \<and> n \<le> 222 \<and> n \<noteq> 215)
         then char_of (n + 32) else c)"

definition lower :: "string \<Rightarrow> string" where
  "lower s = map lower_char s"

text \<open>\<^verbatim>\<open>a in b\<close> on strings is \<^term>\<open>sublist a b\<close>; \<^verbatim>\<open>s.startswith(p)\<close> is
  \<^term>\<open>prefix p s\<close>.\<close>

section \<open>\<^verbatim>\<open>_reconstruct_metadata\<close>\<close>

text \<open>One iteration of the loop over \<^verbatim>\<open>metadata.items()\<close>; the state is the pair
  (\<^verbatim>\<open>reconstructed\<close>, \<^verbatim>\<open>settings\<close>). The test \<^verbatim>\<open>if setting_key_to_store:\<close> is
  Python truthiness: false for \<^verbatim>\<open>None\<close> and for the empty string.\<close>

definition setting_key_to_store :: "string \<Rightarrow> string option" where
  "setting_key_to_store key =
     (if prefix ''chroma:setting:'' key
      then Some (replace_char CHR ''_'' CHR '':'' (drop (length ''chroma:setting:'') key))
      else if prefix ''hnsw:'' key then Some key
      else None)"

fun reconstruct_step :: "py_dict \<times> py_dict \<Rightarrow> string \<times> json \<Rightarrow> py_dict \<times> py_dict" where
  "reconstruct_step (reconstructed, settings) (key, v) =
     (case setting_key_to_store key of
        Some (c # cs) \<Rightarrow> (reconstructed, AList.update (c # cs) v settings)
      | _ \<Rightarrow>
          if key = ''description'' then (AList.update key v reconstructed, settings)
          else if \<not> prefix ''chroma:'' key then (AList.update key v reconstructed, settings)
          else (reconstructed, settings))"

definition reconstruct_metadata :: "py_dict option \<Rightarrow> py_dict" where
  "reconstruct_metadata metadata =
     (case metadata of
        None \<Rightarrow> []
      | Some [] \<Rightarrow> []
      | Some md \<Rightarrow>
          (case foldl reconstruct_step ([], []) md of
             (reconstructed, settings) \<Rightarrow>
               if settings \<noteq> [] then AList.update ''settings'' (JDict settings) reconstructed
               else reconstructed))"

text \<open>The flattening of \<^verbatim>\<open>_create_collection_impl\<close>:
  \<^verbatim>\<open>{f"chroma:setting:{k.replace(':', '_')}": v for k, v in default_settings.items()}\<close>.\<close>

definition flatten_key :: "string \<Rightarrow> string" where
  "flatten_key k = ''chroma:setting:'' @ replace_char CHR '':'' CHR ''_'' k"

definition flatten_settings :: "py_dict \<Rightarrow> py_dict" where
  "flatten_settings s = foldl (\<lambda>acc (k, v). AList.update (flatten_key k) v acc) [] s"

section \<open>\<^verbatim>\<open>json.dumps\<close>\<close>

text \<open>The encoder of the Python standard library with \<^verbatim>\<open>ensure_ascii=True\<close>: the first
  argument is \<^verbatim>\<open>indent\<close> (\<open>None\<close> gives the separators \<^verbatim>\<open>", "\<close> and \<^verbatim>\<open>": "\<close>,
  \<open>Some n\<close> gives \<^verbatim>\<open>","\<close> and \<^verbatim>\<open>": "\<close> with a newline and \<open>n\<close> spaces per level), the
  second the current nesting level.\<close>

definition hex_digit :: "nat \<Rightarrow> char" where
  "hex_digit n = ''0123456789abcdef'' ! n"

definition digit_char :: "nat \<Rightarrow> char" where
  "digit_char n = ''0123456789'' ! n"

definition escape_char :: "char \<Rightarrow> string" where
  "escape_char c =
     (let n = of_char c :: nat
      in if c = CHR 0x22 then [CHR 0x5C, CHR 0x22]
         else if c = CHR 0x5C then [CHR 0x5C, CHR 0x5C]
         else if c = CHR 0x0A then [CHR 0x5C, CHR ''n'']
         else if c = CHR 0x0D then [CHR 0x5C, CHR ''r'']
         else if c = CHR 0x09 then [CHR 0x5C, CHR ''t'']
         else if c = CHR 0x08 then [CHR 0x5C, CHR ''b'']
         else if c = CHR 0x0C then [CHR 0x5C, CHR ''f'']
         else if 32 \<le> n \<and> n \<le> 126 then [c]
         else [CHR 0x5C, CHR ''u'', CHR ''0'', CHR ''0'', hex_digit (n div 16), hex_digit (n mod 16)])"

definition encode_str :: "string \<Rightarrow> string" where
  "encode_str s = CHR 0x22 # concat (map escape_char s) @ [CHR 0x22]"

function nat_digits :: "nat \<Rightarrow> string" where
  "nat_digits n =
     (if n < 10 then [digit_char n] else nat_digits (n div 10) @ [digit_char (n mod 10)])"
  by pat_completeness auto
termination
  by (relation "measure id") auto

declare nat_digits.simps [simp del]

definition str_int :: "int \<Rightarrow> string" where
  "str_int i = (if i < 0 then CHR ''-'' # nat_digits (nat (- i)) else nat_digits (nat i))"

definition newline_indent :: "nat option \<Rightarrow> nat \<Rightarrow> string" where
  "newline_indent indent level =
     (case indent of None \<Rightarrow> [] | Some n \<Rightarrow> CHR 0x0A # replicate (n * level) CHR '' '')"

definition item_separator :: "nat option \<Rightarrow> nat \<Rightarrow> string" where
  "item_separator indent level =
     (case indent of None \<Rightarrow> '', '' | Some n \<Rightarrow> '','' @ newline_indent indent level)"

fun json_encode :: "nat option \<Rightarrow> nat \<Rightarrow> json \<Rightarrow> string"
  and encode_items :: "nat option \<Rightarrow> nat \<Rightarrow> json list \<Rightarrow> string"
  and encode_members :: "nat option \<Rightarrow> nat \<Rightarrow> (string \<times> json) list \<Rightarrow> string" where
  "json_encode indent level JNull = ''null''"
| "json_encode indent level (JBool b) = (if b then ''true'' else ''false'')"
| "json_encode indent level (JInt i) = str_int i"
| "json_encode indent level (JStr s) = encode_str s"
| "json_encode indent level (JList []) = ''[]''"
| "json_encode indent level (JList (x # xs)) =
     ''['' @ newline_indent indent (Suc level) @ encode_items indent (Suc level) (x # xs)
       @ newline_indent indent level @ '']''"
| "json_encode indent level (JDict []) = ''{}''"
| "json_encode indent level (JDict (kv # kvs)) =
     ''{'' @ newline_indent indent (Suc level) @ encode_members indent (Suc level) (kv # kvs)
       @ newline_indent indent level @ ''}''"
| "encode_items indent level [] = []"
| "encode_items indent level [x] = json_encode indent level x"
| "encode_items indent level (x # y # ys) =
     json_encode indent level x @ item_separator indent level @ encode_items indent level (y # ys)"
| "encode_members indent level [] = []"
| "encode_members indent level [(k, v)] = encode_str k @ '': '' @ json_encode indent level v"
| "encode_members indent level ((k, v) # kv # kvs) =
     encode_str k @ '': '' @ json_encode indent level v @ item_separator indent level
       @ encode_members indent level (kv # kvs)"

definition json_dumps :: "nat option \<Rightarrow> json \<Rightarrow> string" where
  "json_dumps indent obj = json_encode indent 0 obj"

section \<open>Exceptions and the error envelope\<close>

definition INVALID_PARAMS :: int where
  "INVALID_PARAMS = - 32602"

definition INTERNAL_ERROR :: int where
  "INTERNAL_ERROR = - 32603"

record ErrorData =
  code :: int
  message :: string

text \<open>An exception is either an \<^verbatim>\<open>McpError\<close> with its \<^verbatim>\<open>ErrorData\<close>, or any other
  subclass of \<^verbatim>\<open>Exception\<close>, given by the classes named in the handlers that it is an
  instance of, and by its \<^verbatim>\<open>str()\<close>. The declaration of \<^verbatim>\<open>ValidationError\<close> is not part
  of the sources at hand, so whether a \<^verbatim>\<open>ValidationError\<close> is also a \<^verbatim>\<open>ValueError\<close> is
  read off the exception itself.\<close>

datatype exc_class = ValidationError | ValueError | InvalidDimensionException | JSONDecodeError

datatype exc = McpError ErrorData | PyError "exc_class list" string

fun isinstance :: "exc \<Rightarrow> exc_class \<Rightarrow> bool" where
  "isinstance (McpError ed) c = False"
| "isinstance (PyError cs m) c = (c \<in> set cs)"

fun is_McpError :: "exc \<Rightarrow> bool" where
  "is_McpError (McpError ed) = True"
| "is_McpError (PyError cs m) = False"

fun exc_str :: "exc \<Rightarrow> string" where
  "exc_str (McpError ed) = message ed"
| "exc_str (PyError cs m) = m"

definition quoted :: "string \<Rightarrow> string" where
  "quoted s = CHR 0x27 # s @ [CHR 0x27]"

section \<open>The external client and the trace of calls made on it\<close>

text \<open>Values that the client hands back inside peek results: JSON-like data, numpy arrays
  (objects with a \<^verbatim>\<open>tolist()\<close> method) and lists that may hold arrays.\<close>

datatype pyobj = Json json | Ndarray "pyobj list" | PyList "pyobj list"

type_synonym peek_dict = "(string \<times> pyobj) list"

text \<open>A collection object: its attributes as the client's API types them (the name, the
  id after \<^verbatim>\<open>str()\<close>, the metadata, \<^verbatim>\<open>None\<close> or a JSON-like dictionary) and the
  outcome of each of its methods.\<close>

record collection =
  name :: string
  id_str :: string
  metadata :: "py_dict option"
  count :: "exc + int"
  peek :: "int \<Rightarrow> exc + peek_dict option"
  modify :: "string \<Rightarrow> exc option"

text \<open>The environment of one request: the outcome of each helper and of each client
  method, \<open>Inl\<close> (or \<open>Some\<close> for methods returning \<^verbatim>\<open>None\<close>) being the exception raised.
  \<^verbatim>\<open>json.loads\<close> returns the message of its \<^verbatim>\<open>JSONDecodeError\<close> or the parsed value.\<close>

record chroma_env =
  validate_collection_name :: "string \<Rightarrow> exc option"
  get_chroma_client :: "exc option"
  get_embedding_function :: "exc option"
  get_collection_settings :: "exc + py_dict"
  json_loads :: "string \<Rightarrow> string + json"
  create_collection :: "string \<Rightarrow> py_dict \<Rightarrow> exc + collection"
  list_collections :: "exc + string list"
  get_collection :: "string \<Rightarrow> exc + collection"
  delete_collection :: "string \<Rightarrow> exc option"

datatype client_call =
    CreateCollection string py_dict
  | ListCollections
  | GetCollection string
  | DeleteCollection string
  | Count
  | Peek int
  | Modify string

record TextContent =
  type_field :: string
  text_field :: string

text \<open>A computation returns the calls it made on the client, in order, and either the
  exception it raised or its value.\<close>

type_synonym 'a traced = "client_call list \<times> (exc + 'a)"

definition ret :: "'a \<Rightarrow> 'a traced" where
  "ret x = ([], Inr x)"

definition raise_exc :: "exc \<Rightarrow> 'a traced" where
  "raise_exc e = ([], Inl e)"

definition unit_of :: "exc option \<Rightarrow> exc + unit" where
  "unit_of r = (case r of None \<Rightarrow> Inr () | Some e \<Rightarrow> Inl e)"

definition local_step :: "exc + 'a \<Rightarrow> 'a traced" where
  "local_step r = ([], r)"

definition client_step :: "client_call \<Rightarrow> exc + 'a \<Rightarrow> 'a traced" where
  "client_step c r = ([c], r)"

definition and_then :: "'a traced \<Rightarrow> ('a \<Rightarrow> 'b traced) \<Rightarrow> 'b traced" where
  "and_then m f =
     (case m of
        (t, Inl e) \<Rightarrow> (t, Inl e)
      | (t, Inr x) \<Rightarrow> (case f x of (t', r) \<Rightarrow> (t @ t', r)))"

definition try_except :: "'a traced \<Rightarrow> (exc \<Rightarrow> 'a traced) \<Rightarrow> 'a traced" where
  "try_except m h =
     (case m of
        (t, Inl e) \<Rightarrow> (case h e of (t', r) \<Rightarrow> (t @ t', r))
      | (t, Inr x) \<Rightarrow> (t, Inr x))"

definition text_result :: "string \<Rightarrow> TextContent list" where
  "text_result s = [\<lparr>type_field = ''text'', text_field = s\<rparr>]"

definition mcp_error :: "int \<Rightarrow> string \<Rightarrow> exc" where
  "mcp_error c m = McpError \<lparr>code = c, message = m\<rparr>"

section \<open>\<^verbatim>\<open>_create_collection_impl\<close>\<close>

definition create_collection_body :: "chroma_env \<Rightarrow> string \<Rightarrow> TextContent list traced" where
  "create_collection_body env collection_name =
     and_then (local_step (unit_of (validate_collection_name env collection_name))) (\<lambda>_.
     and_then (local_step (unit_of (get_chroma_client env))) (\<lambda>_.
     and_then (local_step (unit_of (get_embedding_function env))) (\<lambda>_.
     and_then (local_step (get_collection_settings env)) (\<lambda>default_settings.
     let final_metadata = flatten_settings default_settings in
     and_then (client_step (CreateCollection collection_name final_metadata)
                 (create_collection env collection_name final_metadata)) (\<lambda>collection.
     and_then (client_step Count (count collection)) (\<lambda>cnt.
     ret (text_result (json_dumps (Some 2) (JDict
       [(''name'', JStr (name collection)),
        (''id'', JStr (id_str collection)),
        (''metadata'', JDict (reconstruct_metadata (metadata collection))),
        (''count'', JInt cnt)])))))))))"

definition create_collection_handler :: "string \<Rightarrow> exc \<Rightarrow> exc" where
  "create_collection_handler collection_name e =
     (if isinstance e ValidationError
      then mcp_error INVALID_PARAMS (''Validation Error: '' @ exc_str e)
      else if isinstance e ValueError
      then (if sublist (''Collection '' @ collection_name @ '' already exists.'') (exc_str e)
            then mcp_error INVALID_PARAMS
                   (''Tool Error: Collection '' @ quoted collection_name @ '' already exists.'')
            else mcp_error INVALID_PARAMS
                   (''Tool Error: Invalid parameter during collection creation. Details: ''
                      @ exc_str e))
      else if isinstance e InvalidDimensionException
      then mcp_error INTERNAL_ERROR
             (''ChromaDB Error: Invalid dimension configuration. '' @ exc_str e)
      else mcp_error INTERNAL_ERROR
             (''Tool Error: An unexpected error occurred while creating collection ''
                @ quoted collection_name @ ''. Details: '' @ exc_str e))"

definition create_collection_impl :: "chroma_env \<Rightarrow> string \<Rightarrow> TextContent list traced" where
  "create_collection_impl env collection_name =
     try_except (create_collection_body env collection_name)
       (\<lambda>e. raise_exc (create_collection_handler collection_name e))"

section \<open>\<^verbatim>\<open>_list_collections_impl\<close>\<close>

text \<open>Python's \<^verbatim>\<open>xs[start:stop]\<close>: a negative index counts from the end, every index is
  clamped to the list, and an absent \<^verbatim>\<open>stop\<close> is the end of the list.\<close>

definition clamp_index :: "int \<Rightarrow> int \<Rightarrow> int" where
  "clamp_index n i = (if i < 0 then max 0 (n + i) else min i n)"

definition py_slice :: "'a list \<Rightarrow> int \<Rightarrow> int option \<Rightarrow> 'a list" where
  "py_slice xs start stop =
     (let n = int (length xs);
          lo = clamp_index n start;
          hi = (case stop of None \<Rightarrow> n | Some j \<Rightarrow> clamp_index n j)
      in take (nat (hi - lo)) (drop (nat lo) xs))"

definition opt_int :: "int option \<Rightarrow> json" where
  "opt_int v = (case v of None \<Rightarrow> JNull | Some i \<Rightarrow> JInt i)"

text \<open>The filter: \<^verbatim>\<open>name_contains\<close> is used only when it is neither \<^verbatim>\<open>None\<close> nor empty.\<close>

definition filter_names :: "string option \<Rightarrow> string list \<Rightarrow> string list" where
  "filter_names name_contains all_collection_names =
     (case name_contains of
        Some (c # cs) \<Rightarrow>
          filter (\<lambda>name. sublist (lower (c # cs)) (lower name)) all_collection_names
      | _ \<Rightarrow> all_collection_names)"

definition list_collections_result ::
    "int option \<Rightarrow> int option \<Rightarrow> string option \<Rightarrow> string list \<Rightarrow> json" where
  "list_collections_result limit offset name_contains all_collection_names =
     (let filtered_names = filter_names name_contains all_collection_names;
          total_matching_count = int (length filtered_names);
          start_index = (case offset of Some i \<Rightarrow> i | None \<Rightarrow> 0);
          end_index = (case limit of Some l \<Rightarrow> Some (start_index + l) | None \<Rightarrow> None);
          start_index = (if start_index < 0 then 0 else start_index);
          paginated_names = py_slice filtered_names start_index end_index
      in JDict
           [(''collection_names'', JList (map JStr paginated_names)),
            (''total_count'', JInt total_matching_count),
            (''limit'', opt_int limit),
            (''offset'', opt_int offset)])"

definition list_collections_body ::
    "chroma_env \<Rightarrow> int option \<Rightarrow> int option \<Rightarrow> string option \<Rightarrow> TextContent list traced" where
  "list_collections_body env limit offset name_contains =
     and_then (local_step (unit_of (get_chroma_client env))) (\<lambda>_.
     and_then (client_step ListCollections (list_collections env)) (\<lambda>all_collection_names.
     ret (text_result (json_dumps (Some 2)
       (list_collections_result limit offset name_contains all_collection_names)))))"

definition list_collections_handler :: "exc \<Rightarrow> exc" where
  "list_collections_handler e =
     mcp_error INTERNAL_ERROR (''Tool Error: Error listing collections. Details: '' @ exc_str e)"

definition list_collections_impl ::
    "chroma_env \<Rightarrow> int option \<Rightarrow> int option \<Rightarrow> string option \<Rightarrow> TextContent list traced" where
  "list_collections_impl env limit offset name_contains =
     try_except (list_collections_body env limit offset name_contains)
       (\<lambda>e. raise_exc (list_collections_handler e))"

section \<open>Serialising what the client returned\<close>

text \<open>\<^verbatim>\<open>json.dumps\<close> raises \<^verbatim>\<open>TypeError\<close> on an object that is not JSON-like; \<open>None\<close> below
  is that failure.\<close>

fun py_to_json :: "pyobj \<Rightarrow> json option" where
  "py_to_json (Json j) = Some j"
| "py_to_json (Ndarray xs) = None"
| "py_to_json (PyList xs) = map_option JList (those (map py_to_json xs))"

definition dict_to_json :: "peek_dict \<Rightarrow> py_dict option" where
  "dict_to_json d = those (map (\<lambda>kv. map_option (Pair (fst kv)) (py_to_json (snd kv))) d)"

definition opt_dict_to_json :: "peek_dict option \<Rightarrow> json option" where
  "opt_dict_to_json d =
     (case d of None \<Rightarrow> Some JNull | Some kvs \<Rightarrow> map_option JDict (dict_to_json kvs))"

definition not_serializable :: exc where
  "not_serializable = PyError [] ''Object of type ndarray is not JSON serializable''"

section \<open>\<^verbatim>\<open>_get_collection_impl\<close>\<close>

text \<open>\<^verbatim>\<open>if peek_results and "embeddings" in peek_results: del peek_results["embeddings"]\<close>\<close>

definition strip_embeddings :: "peek_dict option \<Rightarrow> peek_dict option" where
  "strip_embeddings peek_results =
     (case peek_results of
        Some (kv # kvs) \<Rightarrow>
          if ''embeddings'' \<in> fst ` set (kv # kvs)
          then Some (AList.delete ''embeddings'' (kv # kvs)) else Some (kv # kvs)
      | other \<Rightarrow> other)"

text \<open>The inner \<^verbatim>\<open>try\<close> around \<^verbatim>\<open>collection.peek(limit=5)\<close>.\<close>

definition guarded_peek :: "collection \<Rightarrow> peek_dict option traced" where
  "guarded_peek collection =
     try_except
       (and_then (client_step (Peek 5) (peek collection 5)) (\<lambda>peek_results.
        ret (strip_embeddings peek_results)))
       (\<lambda>peek_err. ret (Some [(''error'', Json (JStr (''Could not peek: '' @ exc_str peek_err)))]))"

definition get_collection_body :: "chroma_env \<Rightarrow> string \<Rightarrow> TextContent list traced" where
  "get_collection_body env collection_name =
     and_then (local_step (unit_of (validate_collection_name env collection_name))) (\<lambda>_.
     and_then (local_step (unit_of (get_chroma_client env))) (\<lambda>_.
     and_then (local_step (unit_of (get_embedding_function env))) (\<lambda>_.
     and_then (client_step (GetCollection collection_name)
                 (get_collection env collection_name)) (\<lambda>collection.
     and_then (client_step Count (count collection)) (\<lambda>cnt.
     and_then (guarded_peek collection) (\<lambda>peek_results.
     (case opt_dict_to_json peek_results of
        None \<Rightarrow> raise_exc not_serializable
      | Some sample_entries \<Rightarrow>
          ret (text_result (json_dumps (Some 2) (JDict
            [(''name'', JStr (name collection)),
             (''id'', JStr (id_str collection)),
             (''metadata'', JDict (reconstruct_metadata (metadata collection))),
             (''count'', JInt cnt),
             (''sample_entries'', sample_entries)]))))))))))"

text \<open>The two message patterns shared by the handlers of get, rename and peek; the
  message is lower-cased, the collection name is not.\<close>

definition does_not_exist_in :: "string \<Rightarrow> string \<Rightarrow> bool" where
  "does_not_exist_in collection_name error_str =
     sublist (''collection '' @ collection_name @ '' does not exist.'') error_str"

definition not_found_in :: "string \<Rightarrow> string \<Rightarrow> bool" where
  "not_found_in collection_name error_str =
     sublist (''collection '' @ collection_name @ '' not found'') error_str"

definition not_found_error :: "string \<Rightarrow> exc" where
  "not_found_error collection_name =
     mcp_error INVALID_PARAMS (''Tool Error: Collection '' @ quoted collection_name @ '' not found.'')"

definition get_collection_handler :: "string \<Rightarrow> exc \<Rightarrow> exc" where
  "get_collection_handler collection_name e =
     (if isinstance e ValueError
      then (let error_str = lower (exc_str e)
            in if does_not_exist_in collection_name error_str
                  \<or> not_found_in collection_name error_str
               then not_found_error collection_name
               else mcp_error INVALID_PARAMS
                      (''Tool Error: Invalid parameter getting collection. Details: '' @ exc_str e))
      else mcp_error INTERNAL_ERROR
             (''Tool Error: An unexpected error occurred while getting collection ''
                @ quoted collection_name @ ''. Details: '' @ exc_str e))"

definition get_collection_impl :: "chroma_env \<Rightarrow> string \<Rightarrow> TextContent list traced" where
  "get_collection_impl env collection_name =
     try_except (get_collection_body env collection_name)
       (\<lambda>e. raise_exc (get_collection_handler collection_name e))"

section \<open>\<^verbatim>\<open>_rename_collection_impl\<close>\<close>

definition rename_collection_body ::
    "chroma_env \<Rightarrow> string \<Rightarrow> string \<Rightarrow> TextContent list traced" where
  "rename_collection_body env original_name new_name =
     and_then (local_step (unit_of (validate_collection_name env original_name))) (\<lambda>_.
     and_then (local_step (unit_of (validate_collection_name env new_name))) (\<lambda>_.
     and_then (local_step (unit_of (get_chroma_client env))) (\<lambda>_.
     and_then (client_step (GetCollection original_name)
                 (get_collection env original_name)) (\<lambda>collection.
     and_then (client_step (Modify new_name) (unit_of (modify collection new_name))) (\<lambda>_.
     ret (text_result (''Collection '' @ quoted original_name @ '' successfully renamed to ''
            @ quoted new_name @ ''.'')))))))"

definition rename_collection_handler :: "string \<Rightarrow> string \<Rightarrow> exc \<Rightarrow> exc" where
  "rename_collection_handler original_name new_name e =
     (if isinstance e ValidationError
      then mcp_error INVALID_PARAMS (''Validation Error: '' @ exc_str e)
      else if isinstance e ValueError
      then (let error_str = lower (exc_str e)
            in if does_not_exist_in original_name error_str \<or> not_found_in original_name error_str
               then not_found_error original_name
               else if sublist (''collection '' @ new_name @ '' already exists.'') error_str
               then mcp_error INVALID_PARAMS
                      (''Tool Error: Collection name '' @ quoted new_name @ '' already exists.'')
               else mcp_error INVALID_PARAMS
                      (''Tool Error: Invalid parameter during rename. Details: '' @ exc_str e))
      else mcp_error INTERNAL_ERROR
             (''Tool Error: An unexpected error occurred renaming collection ''
                @ quoted original_name @ ''. Details: '' @ exc_str e))"

definition rename_collection_impl ::
    "chroma_env \<Rightarrow> string \<Rightarrow> string \<Rightarrow> TextContent list traced" where
  "rename_collection_impl env original_name new_name =
     try_except (rename_collection_body env original_name new_name)
       (\<lambda>e. raise_exc (rename_collection_handler original_name new_name e))"

section \<open>\<^verbatim>\<open>_delete_collection_impl\<close>\<close>

definition delete_collection_body :: "chroma_env \<Rightarrow> string \<Rightarrow> TextContent list traced" where
  "delete_collection_body env collection_name =
     and_then (local_step (unit_of (validate_collection_name env collection_name))) (\<lambda>_.
     and_then (local_step (unit_of (get_chroma_client env))) (\<lambda>_.
     and_then (client_step (DeleteCollection collection_name)
                 (unit_of (delete_collection env collection_name))) (\<lambda>_.
     ret (text_result (''Collection '' @ quoted collection_name @ '' deleted successfully.'')))))"

definition named_does_not_exist_in :: "string \<Rightarrow> string \<Rightarrow> bool" where
  "named_does_not_exist_in collection_name error_str =
     sublist (''collection named '' @ collection_name @ '' does not exist'') error_str"

definition delete_collection_handler :: "string \<Rightarrow> exc \<Rightarrow> exc" where
  "delete_collection_handler collection_name e =
     (if isinstance e ValueError
      then (let error_str = lower (exc_str e)
            in if does_not_exist_in collection_name error_str
                  \<or> named_does_not_exist_in collection_name error_str
               then not_found_error collection_name
               else mcp_error INVALID_PARAMS
                      (''Tool Error: Invalid parameter deleting collection. Details: '' @ exc_str e))
      else mcp_error INTERNAL_ERROR
             (''Tool Error: An unexpected error occurred deleting collection ''
                @ quoted collection_name @ ''. Details: '' @ exc_str e))"

definition delete_collection_impl :: "chroma_env \<Rightarrow> string \<Rightarrow> TextContent list traced" where
  "delete_collection_impl env collection_name =
     try_except (delete_collection_body env collection_name)
       (\<lambda>e. raise_exc (delete_collection_handler collection_name e))"

section \<open>\<^verbatim>\<open>_peek_collection_impl\<close>\<close>

text \<open>\<^verbatim>\<open>hasattr(x, "tolist")\<close>, \<^verbatim>\<open>x.tolist()\<close>, \<^verbatim>\<open>isinstance(x, list)\<close> and iteration
  \<^verbatim>\<open>for item in x\<close> (a \<^verbatim>\<open>TypeError\<close> when \<open>x\<close> is not iterable).\<close>

fun has_tolist :: "pyobj \<Rightarrow> bool" where
  "has_tolist (Ndarray xs) = True"
| "has_tolist (Json j) = False"
| "has_tolist (PyList xs) = False"

fun tolist :: "pyobj \<Rightarrow> pyobj" where
  "tolist (Ndarray xs) = PyList (map tolist xs)"
| "tolist (Json j) = Json j"
| "tolist (PyList xs) = PyList xs"

fun is_list :: "pyobj \<Rightarrow> bool" where
  "is_list (PyList xs) = True"
| "is_list (Json (JList js)) = True"
| "is_list (Json j) = False"
| "is_list (Ndarray xs) = False"

fun py_iter :: "pyobj \<Rightarrow> exc + pyobj list" where
  "py_iter (PyList xs) = Inr xs"
| "py_iter (Ndarray xs) = Inr xs"
| "py_iter (Json (JList js)) = Inr (map Json js)"
| "py_iter (Json (JStr s)) = Inr (map (\<lambda>c. Json (JStr [c])) s)"
| "py_iter (Json (JDict d)) = Inr (map (\<lambda>kv. Json (JStr (fst kv))) d)"
| "py_iter (Json j) = Inl (PyError [] ''object is not iterable'')"

definition tolist_if_array :: "pyobj \<Rightarrow> pyobj" where
  "tolist_if_array x = (if has_tolist x then tolist x else x)"

text \<open>One iteration of the loop over \<^verbatim>\<open>embeddings_list\<close> (and over \<^verbatim>\<open>distances_list\<close>).\<close>

definition convert_item :: "pyobj \<Rightarrow> pyobj" where
  "convert_item item =
     (if is_list item
      then (case py_iter item of Inr inner \<Rightarrow> PyList (map tolist_if_array inner) | Inl e \<Rightarrow> item)
      else if has_tolist item then tolist item
      else item)"

text \<open>\<^verbatim>\<open>if key in processed_peek and processed_peek[key] is not None: ...\<close>\<close>

definition convert_field :: "string \<Rightarrow> peek_dict \<Rightarrow> exc + peek_dict" where
  "convert_field key processed_peek =
     (case map_of processed_peek key of
        None \<Rightarrow> Inr processed_peek
      | Some v \<Rightarrow>
          if v = Json JNull then Inr processed_peek
          else (case py_iter v of
                  Inl e \<Rightarrow> Inl e
                | Inr items \<Rightarrow>
                    Inr (AList.update key (PyList (map convert_item items)) processed_peek)))"

definition peek_collection_body ::
    "chroma_env \<Rightarrow> string \<Rightarrow> int option \<Rightarrow> TextContent list traced" where
  "peek_collection_body env collection_name limit =
     and_then (local_step (unit_of (validate_collection_name env collection_name))) (\<lambda>_.
     and_then (local_step (unit_of (get_chroma_client env))) (\<lambda>_.
     and_then (client_step (GetCollection collection_name)
                 (get_collection env collection_name)) (\<lambda>collection.
     let n = (case limit of Some l \<Rightarrow> l | None \<Rightarrow> 10) in
     and_then (client_step (Peek n) (peek collection n)) (\<lambda>peek_results.
     let processed_peek = (case peek_results of Some d \<Rightarrow> d | None \<Rightarrow> []) in
     and_then (local_step (convert_field ''embeddings'' processed_peek)) (\<lambda>processed_peek.
     and_then (local_step (convert_field ''distances'' processed_peek)) (\<lambda>processed_peek.
     (case dict_to_json processed_peek of
        None \<Rightarrow> raise_exc not_serializable
      | Some d \<Rightarrow> ret (text_result (json_dumps (Some 2) (JDict d))))))))))"

definition peek_collection_handler :: "string \<Rightarrow> exc \<Rightarrow> exc" where
  "peek_collection_handler collection_name e =
     (if isinstance e ValueError
      then (let error_str = lower (exc_str e)
            in if does_not_exist_in collection_name error_str
                  \<or> not_found_in collection_name error_str
               then not_found_error collection_name
               else mcp_error INVALID_PARAMS
                      (''Tool Error: Problem accessing collection '' @ quoted collection_name
                         @ ''. Details: '' @ exc_str e))
      else mcp_error INTERNAL_ERROR
             (''Tool Error: An unexpected error occurred peeking collection ''
                @ quoted collection_name @ ''. Details: '' @ exc_str e))"

definition peek_collection_impl ::
    "chroma_env \<Rightarrow> string \<Rightarrow> int option \<Rightarrow> TextContent list traced" where
  "peek_collection_impl env collection_name limit =
     try_except (peek_collection_body env collection_name limit)
       (\<lambda>e. raise_exc (peek_collection_handler collection_name e))"

section \<open>\<^verbatim>\<open>_create_collection_with_metadata_impl\<close>\<close>

text \<open>The inner \<^verbatim>\<open>try\<close>: \<^verbatim>\<open>json.loads\<close>, the \<^verbatim>\<open>isinstance(metadata_dict, dict)\<close> check
  that raises \<^verbatim>\<open>ValueError\<close>, and the two handlers that turn both failures into
  \<^verbatim>\<open>McpError\<close>. \<^verbatim>\<open>JSONDecodeError\<close> is a subclass of \<^verbatim>\<open>ValueError\<close>.\<close>

definition load_metadata :: "chroma_env \<Rightarrow> string \<Rightarrow> py_dict traced" where
  "load_metadata env metadata_str =
     (case json_loads env metadata_str of
        Inl m \<Rightarrow> raise_exc (PyError [JSONDecodeError, ValueError] m)
      | Inr (JDict metadata_dict) \<Rightarrow> ret metadata_dict
      | Inr other \<Rightarrow>
          raise_exc (PyError [ValueError]
            ''Metadata string must decode to a JSON object (dictionary).''))"

definition parse_metadata :: "chroma_env \<Rightarrow> string \<Rightarrow> py_dict traced" where
  "parse_metadata env metadata_str =
     try_except (load_metadata env metadata_str)
       (\<lambda>e. if isinstance e JSONDecodeError
            then raise_exc (mcp_error INVALID_PARAMS
                   (''Invalid JSON format for metadata field: '' @ exc_str e))
            else if isinstance e ValueError
            then raise_exc (mcp_error INVALID_PARAMS (exc_str e))
            else raise_exc e)"

definition create_collection_with_metadata_body ::
    "chroma_env \<Rightarrow> string \<Rightarrow> string \<Rightarrow> TextContent list traced" where
  "create_collection_with_metadata_body env collection_name metadata_str =
     and_then (parse_metadata env metadata_str) (\<lambda>metadata_dict.
     and_then (local_step (unit_of (validate_collection_name env collection_name))) (\<lambda>_.
     and_then (local_step (unit_of (get_embedding_function env))) (\<lambda>_.
     and_then (local_step (unit_of (get_chroma_client env))) (\<lambda>_.
     and_then (client_step (CreateCollection collection_name metadata_dict)
                 (create_collection env collection_name metadata_dict)) (\<lambda>collection.
     let reconstructed_meta = reconstruct_metadata (metadata collection) in
     and_then (client_step Count (count collection)) (\<lambda>cnt.
     ret (text_result (json_dumps None (JDict
       [(''name'', JStr (name collection)),
        (''id'', JStr (id_str collection)),
        (''metadata'', JDict reconstructed_meta),
        (''count'', JInt cnt),
        (''status'', JStr ''success'')])))))))))"

definition create_collection_with_metadata_handler :: "string \<Rightarrow> exc \<Rightarrow> exc" where
  "create_collection_with_metadata_handler collection_name e =
     (if isinstance e ValidationError
      then mcp_error INVALID_PARAMS (''Validation Error: '' @ exc_str e)
      else if is_McpError e then e
      else if sublist (''Collection '' @ collection_name @ '' already exists.'') (exc_str e)
      then mcp_error INVALID_PARAMS
             (''Tool Error: Collection '' @ quoted collection_name @ '' already exists.'')
      else mcp_error INTERNAL_ERROR
             (''Tool Error: An unexpected error occurred while creating collection ''
                @ quoted collection_name @ ''. Details: '' @ exc_str e))"

definition create_collection_with_metadata_impl ::
    "chroma_env \<Rightarrow> string \<Rightarrow> string \<Rightarrow> TextContent list traced" where
  "create_collection_with_metadata_impl env collection_name metadata_str =
     try_except (create_collection_with_metadata_body env collection_name metadata_str)
       (\<lambda>e. raise_exc (create_collection_with_metadata_handler collection_name e))"

section \<open>Pagination and filtering as the specification words them\<close>

text \<open>\<open>filtered[offset : offset + limit]\<close> for indices that are not negative: skip
  \<open>offset\<close> names (none when absent), then keep at most \<open>limit\<close> (all when absent).\<close>

definition spec_filtered :: "string option \<Rightarrow> string list \<Rightarrow> string list" where
  "spec_filtered name_contains names =
     (if name_contains = None \<or> name_contains = Some []
      then names
      else filter (\<lambda>name. sublist (lower (the name_contains)) (lower name)) names)"

definition spec_page :: "int option \<Rightarrow> int option \<Rightarrow> string list \<Rightarrow> string list" where
  "spec_page limit offset filtered =
     (let skipped = drop (nat (case offset of None \<Rightarrow> 0 | Some i \<Rightarrow> i)) filtered
      in case limit of None \<Rightarrow> skipped | Some l \<Rightarrow> take (nat l) skipped)"

section \<open>The mocked client of the test suite\<close>

text \<open>The fixture \<^verbatim>\<open>mock_chroma_client_collections\<close> of
  \<^verbatim>\<open>tests/tools/test_collection_tools.py\<close>: every helper and client method succeeds. The
  stand-in for \<^verbatim>\<open>json.loads\<close> knows three inputs.\<close>

definition mock_collection_instance :: collection where
  "mock_collection_instance =
     \<lparr>name = ''mock_collection'', id_str = ''mock_id_123'',
      metadata = Some [(''description'', JStr ''Fixture Desc'')],
      count = Inr 0,
      peek = (\<lambda>limit. Inr (Some [(''ids'', Json (JList [])), (''documents'', Json (JList []))])),
      modify = (\<lambda>new_name. None)\<rparr>"

definition mock_json_loads :: "string \<Rightarrow> string + json" where
  "mock_json_loads s =
     (if s = ''{}'' then Inr (JDict [])
      else if s = ''[]'' then Inr (JList [])
      else if s = ''null'' then Inr JNull
      else Inl ''Expecting value: line 1 column 1 (char 0)'')"

definition mock_client :: chroma_env where
  "mock_client =
     \<lparr>validate_collection_name = (\<lambda>collection_name. None),
      get_chroma_client = None,
      get_embedding_function = None,
      get_collection_settings = Inr [(''hnsw:space'', JStr ''cosine'')],
      json_loads = mock_json_loads,
      create_collection = (\<lambda>collection_name md. Inr mock_collection_instance),
      list_collections = Inr [''existing_coll1'', ''existing_coll2''],
      get_collection = (\<lambda>collection_name. Inr mock_collection_instance),
      delete_collection = (\<lambda>collection_name. None)\<rparr>"

text \<open>The fixture with one call failing, as the tests set it up with \<^verbatim>\<open>side_effect\<close>.\<close>

definition mock_validate_raises :: "exc \<Rightarrow> chroma_env" where
  "mock_validate_raises e = mock_client\<lparr>validate_collection_name := (\<lambda>collection_name. Some e)\<rparr>"

definition mock_create_raises :: "exc \<Rightarrow> chroma_env" where
  "mock_create_raises e = mock_client\<lparr>create_collection := (\<lambda>collection_name md. Inl e)\<rparr>"

definition mock_list_raises :: "exc \<Rightarrow> chroma_env" where
  "mock_list_raises e = mock_client\<lparr>list_collections := Inl e\<rparr>"

definition mock_get_raises :: "exc \<Rightarrow> chroma_env" where
  "mock_get_raises e = mock_client\<lparr>get_collection := (\<lambda>collection_name. Inl e)\<rparr>"

definition mock_delete_raises :: "exc \<Rightarrow> chroma_env" where
  "mock_delete_raises e = mock_client\<lparr>delete_collection := (\<lambda>collection_name. Some e)\<rparr>"

definition mock_peek_raises :: "exc \<Rightarrow> chroma_env" where
  "mock_peek_raises e =
     mock_client\<lparr>get_collection :=
       (\<lambda>collection_name. Inr (mock_collection_instance\<lparr>peek := (\<lambda>limit. Inl e)\<rparr>))\<rparr>"

definition mock_modify_raises :: "exc \<Rightarrow> chroma_env" where
  "mock_modify_raises e =
     mock_client\<lparr>get_collection :=
       (\<lambda>collection_name. Inr (mock_collection_instance\<lparr>modify := (\<lambda>new_name. Some e)\<rparr>))\<rparr>"

section \<open>The error envelope\<close>


definition mock_peek_returns :: "peek_dict option \<Rightarrow> chroma_env" where
  "mock_peek_returns peek_results =
     mock_client\<lparr>get_collection :=
       (\<lambda>collection_name. Inr (mock_collection_instance\<lparr>peek := (\<lambda>limit. Inr peek_results)\<rparr>))\<rparr>"

definition mock_list_returns :: "string list \<Rightarrow> chroma_env" where
  "mock_list_returns names = mock_client\<lparr>list_collections := Inr names\<rparr>"


section \<open>What it means for a text to parse as JSON\<close>

text \<open>A recogniser for the JSON grammar (RFC 8259), which \<^verbatim>\<open>json.loads\<close> accepts: a
  pushdown automaton that reads the text one character at a time. The stack holds the
  arrays and objects that are still open.\<close>

datatype container = InArray | InObject

datatype scan =
    Value
  | FirstValue
  | FirstKey
  | NextKey
  | Colon
  | Done
  | InString bool
  | Escape bool
  | Hex bool nat
  | Literal string
  | Minus
  | Zero
  | IntDigits
  | FracStart
  | Frac
  | ExpStart
  | ExpSign
  | Exp

type_synonym json_config = "scan \<times> container list"

definition is_ws :: "char \<Rightarrow> bool" where
  "is_ws c = (c = CHR '' '' \<or> c = CHR 0x0A \<or> c = CHR 0x0D \<or> c = CHR 0x09)"

definition is_digit :: "char \<Rightarrow> bool" where
  "is_digit c = (c \<in> set ''0123456789'')"

definition is_hex :: "char \<Rightarrow> bool" where
  "is_hex c = (c \<in> set ''0123456789abcdefABCDEF'')"

text \<open>The first character of a value.\<close>

definition start_value :: "container list \<Rightarrow> char \<Rightarrow> json_config option" where
  "start_value st c =
     (if c = CHR ''{'' then Some (FirstKey, InObject # st)
      else if c = CHR ''['' then Some (FirstValue, InArray # st)
      else if c = CHR 0x22 then Some (InString False, st)
      else if c = CHR ''-'' then Some (Minus, st)
      else if c = CHR ''0'' then Some (Zero, st)
      else if is_digit c then Some (IntDigits, st)
      else if c = CHR ''t'' then Some (Literal ''rue'', st)
      else if c = CHR ''f'' then Some (Literal ''alse'', st)
      else if c = CHR ''n'' then Some (Literal ''ull'', st)
      else None)"

text \<open>The character that follows a complete value.\<close>

definition after_value :: "container list \<Rightarrow> char \<Rightarrow> json_config option" where
  "after_value st c =
     (if is_ws c then Some (Done, st)
      else if c = CHR '','' then
        (case st of
           [] \<Rightarrow> None
         | InArray # st' \<Rightarrow> Some (Value, st)
         | InObject # st' \<Rightarrow> Some (NextKey, st))
      else if c = CHR '']'' then
        (case st of InArray # st' \<Rightarrow> Some (Done, st') | _ \<Rightarrow> None)
      else if c = CHR ''}'' then
        (case st of InObject # st' \<Rightarrow> Some (Done, st') | _ \<Rightarrow> None)
      else None)"

fun json_step :: "json_config \<Rightarrow> char \<Rightarrow> json_config option" where
  "json_step (Value, st) c = (if is_ws c then Some (Value, st) else start_value st c)"
| "json_step (FirstValue, st) c =
     (if is_ws c then Some (FirstValue, st)
      else if c = CHR '']'' then after_value st c
      else start_value st c)"
| "json_step (FirstKey, st) c =
     (if is_ws c then Some (FirstKey, st)
      else if c = CHR ''}'' then after_value st c
      else if c = CHR 0x22 then Some (InString True, st)
      else None)"
| "json_step (NextKey, st) c =
     (if is_ws c then Some (NextKey, st)
      else if c = CHR 0x22 then Some (InString True, st)
      else None)"
| "json_step (Colon, st) c =
     (if is_ws c then Some (Colon, st)
      else if c = CHR '':'' then Some (Value, st)
      else None)"
| "json_step (Done, st) c = after_value st c"
| "json_step (InString key, st) c =
     (if c = CHR 0x22 then Some (if key then Colon else Done, st)
      else if c = CHR 0x5C then Some (Escape key, st)
      else if (of_char c :: nat) < 32 then None
      else Some (InString key, st))"
| "json_step (Escape key, st) c =
     (if c = CHR ''u'' then Some (Hex key (Suc (Suc (Suc 0))), st)
      else if c \<in> set [CHR 0x22, CHR 0x5C, CHR ''/'', CHR ''b'', CHR ''f'', CHR ''n'', CHR ''r'',
                       CHR ''t'']
      then Some (InString key, st)
      else None)"
| "json_step (Hex key n, st) c =
     (if is_hex c then (case n of 0 \<Rightarrow> Some (InString key, st) | Suc m \<Rightarrow> Some (Hex key m, st))
      else None)"
| "json_step (Literal rest, st) c =
     (case rest of
        [] \<Rightarrow> None
      | x # xs \<Rightarrow> if c = x then Some (if xs = [] then Done else Literal xs, st) else None)"
| "json_step (Minus, st) c =
     (if c = CHR ''0'' then Some (Zero, st)
      else if is_digit c then Some (IntDigits, st)
      else None)"
| "json_step (Zero, st) c =
     (if c = CHR ''.'' then Some (FracStart, st)
      else if c = CHR ''e'' \<or> c = CHR ''E'' then Some (ExpStart, st)
      else after_value st c)"
| "json_step (IntDigits, st) c =
     (if is_digit c then Some (IntDigits, st)
      else if c = CHR ''.'' then Some (FracStart, st)
      else if c = CHR ''e'' \<or> c = CHR ''E'' then Some (ExpStart, st)
      else after_value st c)"
| "json_step (FracStart, st) c = (if is_digit c then Some (Frac, st) else None)"
| "json_step (Frac, st) c =
     (if is_digit c then Some (Frac, st)
      else if c = CHR ''e'' \<or> c = CHR ''E'' then Some (ExpStart, st)
      else after_value st c)"
| "json_step (ExpStart, st) c =
     (if c = CHR ''+'' \<or> c = CHR ''-'' then Some (ExpSign, st)
      else if is_digit c then Some (Exp, st)
      else None)"
| "json_step (ExpSign, st) c = (if is_digit c then Some (Exp, st) else None)"
| "json_step (Exp, st) c = (if is_digit c then Some (Exp, st) else after_value st c)"

fun json_run :: "json_config \<Rightarrow> string \<Rightarrow> json_config option" where
  "json_run cfg [] = Some cfg"
| "json_run cfg (c # cs) =
     (case json_step cfg c of None \<Rightarrow> None | Some cfg' \<Rightarrow> json_run cfg' cs)"



section \<open>Basic facts about traced computations\<close>

lemma unit_of_simps [simp]: "unit_of None = Inr ()" "unit_of (Some e) = Inl e"
  by (simp_all add: unit_of_def)

lemma and_then_local [simp]:
  "and_then (local_step (Inl e)) f = ([], Inl e)"
  "and_then (local_step (Inr x)) f = f x"
  by (simp_all add: and_then_def local_step_def split: prod.splits)

lemma and_then_client [simp]:
  "and_then (client_step c (Inl e)) f = ([c], Inl e)"
  "and_then (client_step c (Inr x)) f = (c # fst (f x), snd (f x))"
  by (simp_all add: and_then_def client_step_def split: prod.splits)

lemma and_then_ret [simp]: "and_then (ret x) f = f x"
  by (simp add: and_then_def ret_def split: prod.splits)

lemma and_then_raise [simp]: "and_then (raise_exc e) f = ([], Inl e)"
  by (simp add: and_then_def raise_exc_def)

lemma try_except_raise:
  "try_except m (\<lambda>e. raise_exc (h e)) = (fst m, map_sum h id (snd m))"
  by (cases m) (auto simp: try_except_def raise_exc_def split: sum.splits)

lemma ret_simps [simp]: "fst (ret x) = []" "snd (ret x) = Inr x"
  by (simp_all add: ret_def)

lemma raise_exc_simps [simp]: "fst (raise_exc e) = []" "snd (raise_exc e) = Inl e"
  by (simp_all add: raise_exc_def)

lemma pair_eq_iff: "p = (a, b) \<longleftrightarrow> fst p = a \<and> snd p = b"
  by auto

section \<open>The success path of each operation\<close>

section \<open>Flattening the default settings and reconstructing them\<close>

lemma replace_char_roundtrip:
  "CHR ''_'' \<notin> set k \<Longrightarrow>
     replace_char CHR ''_'' CHR '':'' (replace_char CHR '':'' CHR ''_'' k) = k"
  by (induction k) (auto simp: replace_char_def)

lemma flatten_key_inj:
  assumes "CHR ''_'' \<notin> set k" "CHR ''_'' \<notin> set k'" "flatten_key k = flatten_key k'"
  shows "k = k'"
proof -
  from assms(3) have "replace_char CHR '':'' CHR ''_'' k = replace_char CHR '':'' CHR ''_'' k'"
    by (simp add: flatten_key_def)
  then have "replace_char CHR ''_'' CHR '':'' (replace_char CHR '':'' CHR ''_'' k)
           = replace_char CHR ''_'' CHR '':'' (replace_char CHR '':'' CHR ''_'' k')"
    by simp
  with assms(1,2) show ?thesis
    by (simp add: replace_char_roundtrip)
qed

lemma update_fresh: "k \<notin> fst ` set al \<Longrightarrow> AList.update k v al = al @ [(k, v)]"
  by (induction al) auto

lemma setting_key_flatten:
  "CHR ''_'' \<notin> set k \<Longrightarrow> setting_key_to_store (flatten_key k) = Some k"
  by (simp add: setting_key_to_store_def flatten_key_def replace_char_roundtrip)

lemma flatten_settings_acc:
  assumes "distinct (map fst (acc @ s))" "\<forall>k \<in> fst ` set (acc @ s). CHR ''_'' \<notin> set k"
  shows "foldl (\<lambda>a (k, v). AList.update (flatten_key k) v a)
           (map (\<lambda>(k, v). (flatten_key k, v)) acc) s
         = map (\<lambda>(k, v). (flatten_key k, v)) (acc @ s)"
  using assms
proof (induction s arbitrary: acc)
  case Nil
  then show ?case by simp
next
  case (Cons p s)
  obtain k v where p: "p = (k, v)" by (cases p)
  have fresh: "flatten_key k \<notin> fst ` set (map (\<lambda>(k, v). (flatten_key k, v)) acc)"
  proof
    assume "flatten_key k \<in> fst ` set (map (\<lambda>(k, v). (flatten_key k, v)) acc)"
    then obtain k' v' where in_acc: "(k', v') \<in> set acc" and eq: "flatten_key k = flatten_key k'"
      by auto
    from Cons.prems(2) p in_acc have "CHR ''_'' \<notin> set k" "CHR ''_'' \<notin> set k'"
      by force+
    with eq have "k = k'"
      by (rule flatten_key_inj[rotated 2])
    with Cons.prems(1) p in_acc show False
      by force
  qed
  have step: "AList.update (flatten_key k) v (map (\<lambda>(k, v). (flatten_key k, v)) acc)
              = map (\<lambda>(k, v). (flatten_key k, v)) (acc @ [(k, v)])"
    using update_fresh[OF fresh] by simp
  from Cons.prems have "distinct (map fst ((acc @ [(k, v)]) @ s))"
    "\<forall>k \<in> fst ` set ((acc @ [(k, v)]) @ s). CHR ''_'' \<notin> set k"
    by (simp_all add: p)
  from Cons.IH[OF this] show ?case
    by (simp add: p step)
qed

lemma flatten_settings_distinct:
  assumes "distinct (map fst s)" "\<forall>k \<in> fst ` set s. CHR ''_'' \<notin> set k"
  shows "flatten_settings s = map (\<lambda>(k, v). (flatten_key k, v)) s"
  using flatten_settings_acc[of "[]" s] assms by (simp add: flatten_settings_def)

lemma reconstruct_flat_acc:
  assumes "distinct (map fst (acc @ s))"
    "\<forall>k \<in> fst ` set (acc @ s). k \<noteq> [] \<and> CHR ''_'' \<notin> set k"
  shows "foldl reconstruct_step ([], acc) (map (\<lambda>(k, v). (flatten_key k, v)) s) = ([], acc @ s)"
  using assms
proof (induction s arbitrary: acc)
  case Nil
  then show ?case by simp
next
  case (Cons p s)
  obtain k v where p: "p = (k, v)" by (cases p)
  from Cons.prems p have k: "k \<noteq> []" "CHR ''_'' \<notin> set k" "k \<notin> fst ` set acc"
    by auto
  from k(1) obtain c cs where kc: "k = c # cs" by (cases k) auto
  have "reconstruct_step ([], acc) (flatten_key k, v) = ([], acc @ [(k, v)])"
    using setting_key_flatten[OF k(2)] update_fresh[OF k(3)] by (simp add: kc)
  moreover from Cons.prems have "distinct (map fst ((acc @ [(k, v)]) @ s))"
    "\<forall>k \<in> fst ` set ((acc @ [(k, v)]) @ s). k \<noteq> [] \<and> CHR ''_'' \<notin> set k"
    by (simp_all add: p)
  from Cons.IH[OF this]
  have "foldl reconstruct_step ([], acc @ [(k, v)]) (map (\<lambda>(k, v). (flatten_key k, v)) s)
          = ([], acc @ (k, v) # s)"
    by simp
  ultimately show ?case
    by (simp add: p)
qed

lemma reconstruct_metadata_nonempty:
  "md \<noteq> [] \<Longrightarrow> reconstruct_metadata (Some md) =
     (case foldl reconstruct_step ([], []) md of
        (reconstructed, settings) \<Rightarrow>
          if settings \<noteq> [] then AList.update ''settings'' (JDict settings) reconstructed
          else reconstructed)"
  by (cases md) (simp_all add: reconstruct_metadata_def del: foldl_Cons)

text \<open>
  C9 (amended). For every non-empty settings dictionary whose keys are non-empty and contain
  no underscore, reconstructing the flattened dictionary
  \<open>{"chroma:setting:" + k with ':' replaced by '_' : v}\<close> gives exactly
  \<open>{"settings": s}\<close>, with the entries in their original order.
\<close>

theorem reconstruct_flatten_roundtrip:
  assumes "s \<noteq> []" "distinct (map fst s)"
    "\<forall>k \<in> fst ` set s. k \<noteq> [] \<and> CHR ''_'' \<notin> set k"
  shows "reconstruct_metadata (Some (flatten_settings s)) = [(''settings'', JDict s)]"
proof -
  have fl: "flatten_settings s = map (\<lambda>(k, v). (flatten_key k, v)) s"
    using assms by (intro flatten_settings_distinct) auto
  from assms(1) have ne: "map (\<lambda>(k, v). (flatten_key k, v)) s \<noteq> []"
    by simp
  have "foldl reconstruct_step ([], []) (map (\<lambda>(k, v). (flatten_key k, v)) s) = ([], s)"
    using reconstruct_flat_acc[of "[]" s] assms by simp
  with assms(1) show ?thesis
    by (simp add: reconstruct_metadata_nonempty[OF ne] fl)
qed

theorem reconstruct_flatten_roundtrip_witness:
  "reconstruct_metadata
     (Some (flatten_settings [(''hnsw:space'', JStr ''cosine''), (''hnsw:M'', JInt 16)]))
   = [(''settings'', JDict [(''hnsw:space'', JStr ''cosine''), (''hnsw:M'', JInt 16)])]"
  using reconstruct_flatten_roundtrip[of "[(''hnsw:space'', JStr ''cosine''), (''hnsw:M'', JInt 16)]"]
  by simp

text \<open>
  C9 as stated fails for the settings dictionary \<open>{"": 1}\<close>: its only key is empty, hence
  free of underscores, the flattened key is \<open>"chroma:setting:"\<close>, the recovered key is the
  empty string, which the truthiness test drops, and the result is \<open>{}\<close>.
\<close>

theorem reconstruct_flatten_empty_key_counterexample:
  "reconstruct_metadata (Some (flatten_settings [('''', JInt 1)]))
     \<noteq> [(''settings'', JDict [('''', JInt 1)])]"
  by (simp add: reconstruct_metadata_def flatten_settings_def flatten_key_def replace_char_def
      setting_key_to_store_def)

section \<open>The success path of each operation\<close>

lemma and_then_pair [simp]:
  "and_then (t, Inl e) f = (t, Inl e)"
  "and_then (t, Inr x) f = (t @ fst (f x), snd (f x))"
  by (simp_all add: and_then_def split: prod.splits)

lemma guarded_peek_simps:
  "peek c 5 = Inl e \<Longrightarrow> guarded_peek c
     = ([Peek 5], Inr (Some [(''error'', Json (JStr (''Could not peek: '' @ exc_str e)))]))"
  "peek c 5 = Inr pr \<Longrightarrow> guarded_peek c = ([Peek 5], Inr (strip_embeddings pr))"
  by (simp_all add: guarded_peek_def try_except_def ret_def)

lemma create_collection_success:
  assumes "create_collection_body env n = (t, Inr r)"
  shows "\<exists>ds c k. get_collection_settings env = Inr ds
           \<and> create_collection env n (flatten_settings ds) = Inr c \<and> count c = Inr k
           \<and> t = [CreateCollection n (flatten_settings ds), Count]
           \<and> r = text_result (json_dumps (Some 2) (JDict
                   [(''name'', JStr (name c)), (''id'', JStr (id_str c)),
                    (''metadata'', JDict (reconstruct_metadata (metadata c))),
                    (''count'', JInt k)]))"
  using assms
  apply (simp add: create_collection_body_def Let_def)
  apply (cases "validate_collection_name env n"; cases "get_chroma_client env";
         cases "get_embedding_function env"; cases "get_collection_settings env"; simp)
  subgoal for ds
    apply (cases "create_collection env n (flatten_settings ds)"; simp)
    subgoal for c by (cases "count c"; auto)
    done
  done

lemma parse_metadata_eq:
  "parse_metadata env s =
     (case json_loads env s of
        Inl m \<Rightarrow> ([], Inl (mcp_error INVALID_PARAMS
                   (''Invalid JSON format for metadata field: '' @ m)))
      | Inr v \<Rightarrow>
          (case v of
             JDict d \<Rightarrow> ([], Inr d)
           | _ \<Rightarrow> ([], Inl (mcp_error INVALID_PARAMS
                   ''Metadata string must decode to a JSON object (dictionary).''))))"
  by (simp add: parse_metadata_def load_metadata_def try_except_def raise_exc_def ret_def
      split: sum.splits json.splits)

lemma create_collection_with_metadata_success:
  assumes "create_collection_with_metadata_body env n s = (t, Inr r)"
  shows "\<exists>d c k. json_loads env s = Inr (JDict d)
           \<and> create_collection env n d = Inr c \<and> count c = Inr k
           \<and> t = [CreateCollection n d, Count]
           \<and> r = text_result (json_dumps None (JDict
                   [(''name'', JStr (name c)), (''id'', JStr (id_str c)),
                    (''metadata'', JDict (reconstruct_metadata (metadata c))),
                    (''count'', JInt k), (''status'', JStr ''success'')]))"
proof -
  from assms obtain d where d: "json_loads env s = Inr (JDict d)"
    by (auto simp: create_collection_with_metadata_body_def parse_metadata_eq
        split: sum.splits json.splits)
  then have pm: "parse_metadata env s = ([], Inr d)"
    by (simp add: parse_metadata_eq)
  from assms show ?thesis
    apply (simp add: create_collection_with_metadata_body_def Let_def pm d)
    apply (cases "validate_collection_name env n"; cases "get_embedding_function env";
        cases "get_chroma_client env"; simp)
    apply (cases "create_collection env n d"; simp)
    subgoal for c by (cases "count c"; auto)
    done
qed

lemma list_collections_success:
  assumes "list_collections_body env limit offset name_contains = (t, Inr r)"
  shows "\<exists>names. list_collections env = Inr names \<and> t = [ListCollections]
           \<and> r = text_result (json_dumps (Some 2)
                   (list_collections_result limit offset name_contains names))"
  using assms
  apply (simp add: list_collections_body_def)
  apply (cases "get_chroma_client env"; simp)
  apply (cases "list_collections env"; auto)
  done

lemma get_collection_success:
  assumes "get_collection_body env n = (t, Inr r)"
  shows "\<exists>c k pr se. get_collection env n = Inr c \<and> count c = Inr k
           \<and> snd (guarded_peek c) = Inr pr \<and> opt_dict_to_json pr = Some se
           \<and> t = [GetCollection n, Count, Peek 5]
           \<and> r = text_result (json_dumps (Some 2) (JDict
                   [(''name'', JStr (name c)), (''id'', JStr (id_str c)),
                    (''metadata'', JDict (reconstruct_metadata (metadata c))),
                    (''count'', JInt k), (''sample_entries'', se)]))"
  using assms
  apply (simp add: get_collection_body_def)
  apply (cases "validate_collection_name env n"; cases "get_chroma_client env";
         cases "get_embedding_function env"; simp)
  apply (cases "get_collection env n"; simp)
  subgoal for c
    apply (cases "count c"; simp)
    apply (cases "peek c 5")
     apply (auto simp: guarded_peek_simps split: option.splits)
    done
  done

lemma rename_collection_success:
  assumes "rename_collection_body env original_name new_name = (t, Inr r)"
  shows "t = [GetCollection original_name, Modify new_name]
           \<and> r = text_result (''Collection '' @ quoted original_name
                    @ '' successfully renamed to '' @ quoted new_name @ ''.'')"
  using assms
  apply (simp add: rename_collection_body_def)
  apply (cases "validate_collection_name env original_name";
         cases "validate_collection_name env new_name"; cases "get_chroma_client env"; simp)
  apply (cases "get_collection env original_name"; simp)
  subgoal for c by (cases "modify c new_name"; auto)
  done

lemma delete_collection_success:
  assumes "delete_collection_body env n = (t, Inr r)"
  shows "t = [DeleteCollection n]
           \<and> r = text_result (''Collection '' @ quoted n @ '' deleted successfully.'')"
  using assms
  apply (simp add: delete_collection_body_def)
  apply (cases "validate_collection_name env n"; cases "get_chroma_client env"; simp)
  apply (cases "delete_collection env n"; auto)
  done

lemma peek_collection_success:
  assumes "peek_collection_body env n limit = (t, Inr r)"
  shows "\<exists>d. t = [GetCollection n, Peek (case limit of Some l \<Rightarrow> l | None \<Rightarrow> 10)]
           \<and> r = text_result (json_dumps (Some 2) (JDict d))"
  using assms
  apply (simp add: peek_collection_body_def Let_def)
  apply (cases "validate_collection_name env n"; cases "get_chroma_client env"; simp)
  apply (cases "get_collection env n"; simp)
  subgoal for c
    apply (cases "peek c (case limit of Some l \<Rightarrow> l | None \<Rightarrow> 10)"; simp)
    subgoal for pr
      apply (cases "convert_field ''embeddings'' (case pr of Some d \<Rightarrow> d | None \<Rightarrow> [])"; simp)
      subgoal for p1
        apply (cases "convert_field ''distances'' p1"; simp)
        apply (auto split: option.splits)
        done
      done
    done
  done

section \<open>Every operation is its try body followed by its handler\<close>

lemma create_collection_impl_eq:
  "create_collection_impl env n =
     (fst (create_collection_body env n),
      map_sum (create_collection_handler n) id (snd (create_collection_body env n)))"
  by (simp add: create_collection_impl_def try_except_raise)

lemma create_collection_with_metadata_impl_eq:
  "create_collection_with_metadata_impl env n s =
     (fst (create_collection_with_metadata_body env n s),
      map_sum (create_collection_with_metadata_handler n) id
        (snd (create_collection_with_metadata_body env n s)))"
  by (simp add: create_collection_with_metadata_impl_def try_except_raise)

lemma list_collections_impl_eq:
  "list_collections_impl env limit offset name_contains =
     (fst (list_collections_body env limit offset name_contains),
      map_sum list_collections_handler id
        (snd (list_collections_body env limit offset name_contains)))"
  by (simp add: list_collections_impl_def try_except_raise)

lemma get_collection_impl_eq:
  "get_collection_impl env n =
     (fst (get_collection_body env n),
      map_sum (get_collection_handler n) id (snd (get_collection_body env n)))"
  by (simp add: get_collection_impl_def try_except_raise)

lemma rename_collection_impl_eq:
  "rename_collection_impl env original_name new_name =
     (fst (rename_collection_body env original_name new_name),
      map_sum (rename_collection_handler original_name new_name) id
        (snd (rename_collection_body env original_name new_name)))"
  by (simp add: rename_collection_impl_def try_except_raise)

lemma delete_collection_impl_eq:
  "delete_collection_impl env n =
     (fst (delete_collection_body env n),
      map_sum (delete_collection_handler n) id (snd (delete_collection_body env n)))"
  by (simp add: delete_collection_impl_def try_except_raise)

lemma peek_collection_impl_eq:
  "peek_collection_impl env n limit =
     (fst (peek_collection_body env n limit),
      map_sum (peek_collection_handler n) id (snd (peek_collection_body env n limit)))"
  by (simp add: peek_collection_impl_def try_except_raise)

lemmas impl_eqs = create_collection_impl_eq create_collection_with_metadata_impl_eq
  list_collections_impl_eq get_collection_impl_eq rename_collection_impl_eq
  delete_collection_impl_eq peek_collection_impl_eq

lemma map_sum_Inr_iff: "map_sum f id x = Inr r \<longleftrightarrow> x = Inr r"
  by (cases x) auto


lemma impl_success_iff:
  "create_collection_impl env n = (t, Inr r) \<longleftrightarrow> create_collection_body env n = (t, Inr r)"
  "create_collection_with_metadata_impl env n s = (t, Inr r)
     \<longleftrightarrow> create_collection_with_metadata_body env n s = (t, Inr r)"
  "list_collections_impl env limit offset nc = (t, Inr r)
     \<longleftrightarrow> list_collections_body env limit offset nc = (t, Inr r)"
  "get_collection_impl env n = (t, Inr r) \<longleftrightarrow> get_collection_body env n = (t, Inr r)"
  "rename_collection_impl env n n' = (t, Inr r) \<longleftrightarrow> rename_collection_body env n n' = (t, Inr r)"
  "delete_collection_impl env n = (t, Inr r) \<longleftrightarrow> delete_collection_body env n = (t, Inr r)"
  "peek_collection_impl env n plimit = (t, Inr r)
     \<longleftrightarrow> peek_collection_body env n plimit = (t, Inr r)"
  by (auto simp: impl_eqs map_sum_Inr_iff pair_eq_iff)

section \<open>Evaluating the operations on the mocked client\<close>

lemmas mock_defs = mock_client_def mock_collection_instance_def mock_validate_raises_def
  mock_create_raises_def mock_list_raises_def mock_get_raises_def mock_delete_raises_def
  mock_peek_raises_def mock_modify_raises_def mock_json_loads_def mock_peek_returns_def
  mock_list_returns_def

lemmas body_defs = create_collection_body_def create_collection_with_metadata_body_def
  list_collections_body_def get_collection_body_def rename_collection_body_def
  delete_collection_body_def peek_collection_body_def

text \<open>
  C3 (amended). On its success path create collection and create collection with metadata
  make two calls on the client (create_collection, then count on the returned
  collection), list collections one (list_collections), get collection three
  (get_collection, count, peek), rename collection two (get_collection, modify), delete
  collection one (delete_collection) and peek collection two (get_collection, peek).
\<close>

theorem client_calls_on_success:
  "(create_collection_impl env n = (t, Inr r) \<longrightarrow> (\<exists>md. t = [CreateCollection n md, Count]))
   \<and> (create_collection_with_metadata_impl env n s = (t, Inr r)
        \<longrightarrow> (\<exists>md. t = [CreateCollection n md, Count]))
   \<and> (list_collections_impl env limit offset nc = (t, Inr r) \<longrightarrow> t = [ListCollections])
   \<and> (get_collection_impl env n = (t, Inr r) \<longrightarrow> t = [GetCollection n, Count, Peek 5])
   \<and> (rename_collection_impl env n n' = (t, Inr r) \<longrightarrow> t = [GetCollection n, Modify n'])
   \<and> (delete_collection_impl env n = (t, Inr r) \<longrightarrow> t = [DeleteCollection n])
   \<and> (peek_collection_impl env n plimit = (t, Inr r)
        \<longrightarrow> t = [GetCollection n, Peek (case plimit of Some l \<Rightarrow> l | None \<Rightarrow> 10)])"
  unfolding impl_success_iff
  using create_collection_success[of env n t r]
    create_collection_with_metadata_success[of env n s t r]
    list_collections_success[of env limit offset nc t r]
    get_collection_success[of env n t r]
    rename_collection_success[of env n n' t r]
    delete_collection_success[of env n t r]
    peek_collection_success[of env n plimit t r]
  by blast

lemma mock_list_eval:
  "list_collections_impl mock_client None None None =
     ([ListCollections], Inr (text_result (json_dumps (Some 2)
        (list_collections_result None None None [''existing_coll1'', ''existing_coll2'']))))"
  by (simp add: impl_eqs body_defs mock_defs)

lemma mock_delete_eval:
  "delete_collection_impl mock_client ''delete_me'' =
     ([DeleteCollection ''delete_me''],
      Inr (text_result (''Collection '' @ quoted ''delete_me'' @ '' deleted successfully.'')))"
  by (simp add: impl_eqs body_defs mock_defs)

lemma mock_get_eval:
  "get_collection_impl mock_client ''my_coll'' =
     ([GetCollection ''my_coll'', Count, Peek 5],
      Inr (text_result (json_dumps (Some 2) (JDict
        [(''name'', JStr ''mock_collection''), (''id'', JStr ''mock_id_123''),
         (''metadata'', JDict [(''description'', JStr ''Fixture Desc'')]),
         (''count'', JInt 0),
         (''sample_entries'', JDict [(''ids'', JList []), (''documents'', JList [])])]))))"
  by (simp add: impl_eqs body_defs mock_defs guarded_peek_simps strip_embeddings_def
      opt_dict_to_json_def dict_to_json_def reconstruct_metadata_def setting_key_to_store_def)

theorem client_calls_on_success_witness:
  "fst (list_collections_impl mock_client None None None) = [ListCollections]
   \<and> fst (delete_collection_impl mock_client ''delete_me'') = [DeleteCollection ''delete_me'']
   \<and> fst (get_collection_impl mock_client ''my_coll'') = [GetCollection ''my_coll'', Count, Peek 5]"
proof (intro conjI)
  show "fst (list_collections_impl mock_client None None None) = [ListCollections]"
    by (rule client_calls_on_success[where env = mock_client and limit = None and offset = None
          and nc = None and t = "fst (list_collections_impl mock_client None None None)"
          and r = "projr (snd (list_collections_impl mock_client None None None))",
          THEN conjunct2, THEN conjunct2, THEN conjunct1, rule_format])
       (simp add: mock_list_eval)
  show "fst (delete_collection_impl mock_client ''delete_me'') = [DeleteCollection ''delete_me'']"
    by (rule client_calls_on_success[where env = mock_client and n = "''delete_me''"
          and t = "fst (delete_collection_impl mock_client ''delete_me'')"
          and r = "projr (snd (delete_collection_impl mock_client ''delete_me''))",
          THEN conjunct2, THEN conjunct2, THEN conjunct2, THEN conjunct2, THEN conjunct2,
          THEN conjunct1, rule_format])
       (simp add: mock_delete_eval)
  show "fst (get_collection_impl mock_client ''my_coll'') = [GetCollection ''my_coll'', Count, Peek 5]"
    by (rule client_calls_on_success[where env = mock_client and n = "''my_coll''"
          and t = "fst (get_collection_impl mock_client ''my_coll'')"
          and r = "projr (snd (get_collection_impl mock_client ''my_coll''))",
          THEN conjunct2, THEN conjunct2, THEN conjunct2, THEN conjunct1, rule_format])
       (simp add: mock_get_eval)
qed

text \<open>
  C3 as stated fails: on the mocked client get collection succeeds after three calls on
  the client and its collection object, not one.
\<close>

theorem get_collection_three_calls_counterexample:
  "fst (get_collection_impl mock_client ''my_coll'') = [GetCollection ''my_coll'', Count, Peek 5]
   \<and> isl (snd (get_collection_impl mock_client ''my_coll'')) = False
   \<and> length (fst (get_collection_impl mock_client ''my_coll'')) \<noteq> 1"
  by (simp add: mock_get_eval)

section \<open>Exceptions raised by the client reach the handler\<close>

lemma create_collection_raises:
  assumes "validate_collection_name env n = None" "get_chroma_client env = None"
    "get_embedding_function env = None" "get_collection_settings env = Inr ds"
    "create_collection env n (flatten_settings ds) = Inl e"
  shows "create_collection_body env n = ([CreateCollection n (flatten_settings ds)], Inl e)"
  using assms by (simp add: create_collection_body_def)

lemma create_collection_with_metadata_raises:
  assumes "json_loads env s = Inr (JDict d)" "validate_collection_name env n = None"
    "get_embedding_function env = None" "get_chroma_client env = None"
    "create_collection env n d = Inl e"
  shows "create_collection_with_metadata_body env n s = ([CreateCollection n d], Inl e)"
  using assms by (simp add: create_collection_with_metadata_body_def parse_metadata_eq)

lemma get_collection_raises:
  assumes "validate_collection_name env n = None" "get_chroma_client env = None"
    "get_embedding_function env = None" "get_collection env n = Inl e"
  shows "get_collection_body env n = ([GetCollection n], Inl e)"
  using assms by (simp add: get_collection_body_def)

lemma delete_collection_raises:
  assumes "validate_collection_name env n = None" "get_chroma_client env = None"
    "delete_collection env n = Some e"
  shows "delete_collection_body env n = ([DeleteCollection n], Inl e)"
  using assms by (simp add: delete_collection_body_def)

lemma peek_collection_raises:
  assumes "validate_collection_name env n = None" "get_chroma_client env = None"
    "get_collection env n = Inl e"
  shows "peek_collection_body env n plimit = ([GetCollection n], Inl e)"
  using assms by (simp add: peek_collection_body_def)

section \<open>Collection already exists\<close>

text \<open>
  C4 (amended). In create collection, every \<open>ValueError\<close> that is not a
  \<open>ValidationError\<close>, and in create collection with metadata every exception that is
  neither a \<open>ValidationError\<close> nor an \<open>McpError\<close>, that leaves the try block (in
  particular one raised by the client's create_collection or by count) with a message
  containing \<open>Collection {collection_name} already exists.\<close> makes the operation raise
  McpError with code INVALID_PARAMS and message
  \<open>Tool Error: Collection '{collection_name}' already exists.\<close>.
\<close>

theorem already_exists_is_invalid_params:
  assumes "sublist (''Collection '' @ n @ '' already exists.'') (exc_str e)"
    and "\<not> isinstance e ValidationError"
  shows "(isinstance e ValueError \<and> snd (create_collection_body env n) = Inl e
            \<longrightarrow> snd (create_collection_impl env n)
                  = Inl (mcp_error INVALID_PARAMS
                      (''Tool Error: Collection '' @ quoted n @ '' already exists.'')))
       \<and> (\<not> is_McpError e \<and> snd (create_collection_with_metadata_body env n s) = Inl e
            \<longrightarrow> snd (create_collection_with_metadata_impl env n s)
                  = Inl (mcp_error INVALID_PARAMS
                      (''Tool Error: Collection '' @ quoted n @ '' already exists.'')))"
  using assms
  by (simp add: impl_eqs create_collection_handler_def
      create_collection_with_metadata_handler_def)

theorem already_exists_is_invalid_params_witness:
  "snd (create_collection_impl
          (mock_create_raises (PyError [ValueError] ''Collection duplicate_coll already exists.''))
          ''duplicate_coll'')
     = Inl (mcp_error INVALID_PARAMS
         (''Tool Error: Collection '' @ quoted ''duplicate_coll'' @ '' already exists.''))
   \<and> snd (create_collection_with_metadata_impl
          (mock_create_raises (PyError [] ''Collection duplicate_coll already exists.''))
          ''duplicate_coll'' ''{}'')
     = Inl (mcp_error INVALID_PARAMS
         (''Tool Error: Collection '' @ quoted ''duplicate_coll'' @ '' already exists.''))"
proof (intro conjI)
  have sub: "sublist (''Collection '' @ ''duplicate_coll'' @ '' already exists.'')
               ''Collection duplicate_coll already exists.''"
    by simp
  have b1: "create_collection_body
              (mock_create_raises (PyError [ValueError] ''Collection duplicate_coll already exists.''))
              ''duplicate_coll''
            = ([CreateCollection ''duplicate_coll''
                  (flatten_settings [(''hnsw:space'', JStr ''cosine'')])],
               Inl (PyError [ValueError] ''Collection duplicate_coll already exists.''))"
    by (rule create_collection_raises) (simp_all add: mock_defs)
  show "snd (create_collection_impl
          (mock_create_raises (PyError [ValueError] ''Collection duplicate_coll already exists.''))
          ''duplicate_coll'')
     = Inl (mcp_error INVALID_PARAMS
         (''Tool Error: Collection '' @ quoted ''duplicate_coll'' @ '' already exists.''))"
    by (rule already_exists_is_invalid_params[
          where e = "PyError [ValueError] ''Collection duplicate_coll already exists.''",
          THEN conjunct1, rule_format])
       (use sub in \<open>simp_all add: b1\<close>)
  have b2: "create_collection_with_metadata_body
              (mock_create_raises (PyError [] ''Collection duplicate_coll already exists.''))
              ''duplicate_coll'' ''{}''
            = ([CreateCollection ''duplicate_coll'' []],
               Inl (PyError [] ''Collection duplicate_coll already exists.''))"
    by (rule create_collection_with_metadata_raises) (simp_all add: mock_defs)
  show "snd (create_collection_with_metadata_impl
          (mock_create_raises (PyError [] ''Collection duplicate_coll already exists.''))
          ''duplicate_coll'' ''{}'')
     = Inl (mcp_error INVALID_PARAMS
         (''Tool Error: Collection '' @ quoted ''duplicate_coll'' @ '' already exists.''))"
    by (rule already_exists_is_invalid_params[
          where e = "PyError [] ''Collection duplicate_coll already exists.''",
          THEN conjunct2, rule_format])
       (use sub in \<open>simp_all add: b2\<close>)
qed

text \<open>
  C4 as stated fails in create collection: an exception of the client whose message is
  \<open>Collection duplicate_coll already exists.\<close> is answered with code INTERNAL_ERROR
  when it is not a \<open>ValueError\<close>, by \<open>except Exception\<close>, and also when it is an
  \<open>InvalidDimensionException\<close>, by the clause for that class.
\<close>

theorem already_exists_not_value_error_counterexample:
  "snd (create_collection_impl
          (mock_create_raises (PyError [] ''Collection duplicate_coll already exists.''))
          ''duplicate_coll'')
     = Inl (mcp_error INTERNAL_ERROR
         (''Tool Error: An unexpected error occurred while creating collection ''
            @ quoted ''duplicate_coll'' @ ''. Details: Collection duplicate_coll already exists.''))
   \<and> snd (create_collection_impl
          (mock_create_raises
             (PyError [InvalidDimensionException] ''Collection duplicate_coll already exists.''))
          ''duplicate_coll'')
     = Inl (mcp_error INTERNAL_ERROR
         (''ChromaDB Error: Invalid dimension configuration. ''
            @ ''Collection duplicate_coll already exists.''))
   \<and> INTERNAL_ERROR \<noteq> INVALID_PARAMS"
proof -
  have "create_collection_body (mock_create_raises e) ''duplicate_coll''
        = ([CreateCollection ''duplicate_coll''
              (flatten_settings [(''hnsw:space'', JStr ''cosine'')])], Inl e)" for e
    by (rule create_collection_raises) (simp_all add: mock_defs)
  then show ?thesis
    by (simp add: impl_eqs create_collection_handler_def INTERNAL_ERROR_def INVALID_PARAMS_def)
qed

section \<open>ValueError from the client\<close>

text \<open>
  C5 (amended). In get collection, delete collection and peek collection, every
  \<open>ValueError\<close> that leaves the try block (one raised by get_collection, count,
  delete_collection, or by peek in peek collection) makes the operation raise McpError
  with code INVALID_PARAMS; the message is \<open>Tool Error: Collection '{collection_name}'
  not found.\<close> when the lower-cased exception text contains
  \<open>collection {collection_name} does not exist.\<close>, or, for get and peek,
  \<open>collection {collection_name} not found\<close>, or, for delete,
  \<open>collection named {collection_name} does not exist\<close>. An exception raised by the
  peek call inside get collection never leaves the try block.
\<close>

theorem value_error_is_invalid_params:
  assumes "isinstance e ValueError"
  shows "(snd (get_collection_body env n) = Inl e \<longrightarrow>
            (\<exists>msg. snd (get_collection_impl env n) = Inl (mcp_error INVALID_PARAMS msg))
            \<and> (does_not_exist_in n (lower (exc_str e)) \<or> not_found_in n (lower (exc_str e))
                 \<longrightarrow> snd (get_collection_impl env n) = Inl (mcp_error INVALID_PARAMS
                       (''Tool Error: Collection '' @ quoted n @ '' not found.''))))
       \<and> (snd (delete_collection_body env n) = Inl e \<longrightarrow>
            (\<exists>msg. snd (delete_collection_impl env n) = Inl (mcp_error INVALID_PARAMS msg))
            \<and> (does_not_exist_in n (lower (exc_str e))
                  \<or> named_does_not_exist_in n (lower (exc_str e))
                 \<longrightarrow> snd (delete_collection_impl env n) = Inl (mcp_error INVALID_PARAMS
                       (''Tool Error: Collection '' @ quoted n @ '' not found.''))))
       \<and> (snd (peek_collection_body env n plimit) = Inl e \<longrightarrow>
            (\<exists>msg. snd (peek_collection_impl env n plimit) = Inl (mcp_error INVALID_PARAMS msg))
            \<and> (does_not_exist_in n (lower (exc_str e)) \<or> not_found_in n (lower (exc_str e))
                 \<longrightarrow> snd (peek_collection_impl env n plimit) = Inl (mcp_error INVALID_PARAMS
                       (''Tool Error: Collection '' @ quoted n @ '' not found.''))))"
  using assms
  by (auto simp: impl_eqs get_collection_handler_def delete_collection_handler_def
      peek_collection_handler_def not_found_error_def Let_def)

lemma lower_does_not_exist:
  "lower ''Collection not_found_coll does not exist.'' = ''collection not_found_coll does not exist.''"
  by code_simp

lemma lower_not_found:
  "lower ''Collection my_coll not found'' = ''collection my_coll not found''"
  by code_simp

theorem value_error_is_invalid_params_witness:
  "snd (get_collection_impl
          (mock_get_raises (PyError [ValueError] ''Collection not_found_coll does not exist.''))
          ''not_found_coll'')
     = Inl (mcp_error INVALID_PARAMS
         (''Tool Error: Collection '' @ quoted ''not_found_coll'' @ '' not found.''))
   \<and> snd (delete_collection_impl
          (mock_delete_raises (PyError [ValueError] ''Collection not_found_coll does not exist.''))
          ''not_found_coll'')
     = Inl (mcp_error INVALID_PARAMS
         (''Tool Error: Collection '' @ quoted ''not_found_coll'' @ '' not found.''))
   \<and> snd (peek_collection_impl
          (mock_get_raises (PyError [ValueError] ''Collection not_found_coll does not exist.''))
          ''not_found_coll'' None)
     = Inl (mcp_error INVALID_PARAMS
         (''Tool Error: Collection '' @ quoted ''not_found_coll'' @ '' not found.''))"
proof (intro conjI)
  let ?e = "PyError [ValueError] ''Collection not_found_coll does not exist.''"
  have v: "isinstance ?e ValueError"
    by simp
  have pat: "does_not_exist_in ''not_found_coll'' (lower (exc_str ?e))"
    by (simp add: lower_does_not_exist does_not_exist_in_def)
  have g: "get_collection_body (mock_get_raises ?e) ''not_found_coll''
             = ([GetCollection ''not_found_coll''], Inl ?e)"
    by (rule get_collection_raises) (simp_all add: mock_defs)
  have d: "delete_collection_body (mock_delete_raises ?e) ''not_found_coll''
             = ([DeleteCollection ''not_found_coll''], Inl ?e)"
    by (rule delete_collection_raises) (simp_all add: mock_defs)
  have p: "peek_collection_body (mock_get_raises ?e) ''not_found_coll'' None
             = ([GetCollection ''not_found_coll''], Inl ?e)"
    by (rule peek_collection_raises) (simp_all add: mock_defs)
  show "snd (get_collection_impl (mock_get_raises ?e) ''not_found_coll'')
     = Inl (mcp_error INVALID_PARAMS
         (''Tool Error: Collection '' @ quoted ''not_found_coll'' @ '' not found.''))"
    using value_error_is_invalid_params[OF v, of "mock_get_raises ?e" "''not_found_coll''",
        THEN conjunct1] g pat
    by simp
  show "snd (delete_collection_impl (mock_delete_raises ?e) ''not_found_coll'')
     = Inl (mcp_error INVALID_PARAMS
         (''Tool Error: Collection '' @ quoted ''not_found_coll'' @ '' not found.''))"
    using value_error_is_invalid_params[OF v, of "mock_delete_raises ?e" "''not_found_coll''",
        THEN conjunct2, THEN conjunct1] d pat
    by simp
  show "snd (peek_collection_impl (mock_get_raises ?e) ''not_found_coll'' None)
     = Inl (mcp_error INVALID_PARAMS
         (''Tool Error: Collection '' @ quoted ''not_found_coll'' @ '' not found.''))"
    using value_error_is_invalid_params[OF v, of "mock_get_raises ?e" "''not_found_coll''" None,
        THEN conjunct2, THEN conjunct2] p pat
    by simp
qed

text \<open>
  C5 as stated fails in get collection: when the client's peek raises a \<open>ValueError\<close>
  whose lower-cased message contains \<open>collection my_coll not found\<close>, the inner handler
  absorbs it and the operation returns its result instead of raising McpError.
\<close>

theorem peek_value_error_absorbed_counterexample:
  "isinstance (PyError [ValueError] ''Collection my_coll not found'') ValueError
   \<and> not_found_in ''my_coll'' (lower (exc_str (PyError [ValueError] ''Collection my_coll not found'')))
   \<and> get_collection_impl (mock_peek_raises (PyError [ValueError] ''Collection my_coll not found''))
         ''my_coll''
       = ([GetCollection ''my_coll'', Count, Peek 5],
          Inr (text_result (json_dumps (Some 2) (JDict
            [(''name'', JStr ''mock_collection''), (''id'', JStr ''mock_id_123''),
             (''metadata'', JDict [(''description'', JStr ''Fixture Desc'')]),
             (''count'', JInt 0),
             (''sample_entries'',
                JDict [(''error'', JStr ''Could not peek: Collection my_coll not found'')])]))))"
  by (simp add: impl_eqs body_defs mock_defs guarded_peek_simps opt_dict_to_json_def
      dict_to_json_def reconstruct_metadata_def setting_key_to_store_def not_found_in_def
      lower_not_found)

section \<open>Name validation\<close>

text \<open>When \<^verbatim>\<open>validate_collection_name\<close> raises, no operation has called the client yet, and
  the three operations with an \<^verbatim>\<open>except ValidationError\<close> clause answer with
  INVALID_PARAMS.\<close>

lemma validation_failure_makes_no_client_call:
  assumes "validate_collection_name env n = Some e"
  shows "fst (create_collection_impl env n) = []"
    and "fst (create_collection_with_metadata_impl env n s) = []"
    and "fst (get_collection_impl env n) = []"
    and "fst (rename_collection_impl env n n') = []"
    and "fst (delete_collection_impl env n) = []"
    and "fst (peek_collection_impl env n plimit) = []"
  using assms
  by (auto simp: impl_eqs body_defs parse_metadata_eq
      split: sum.splits json.splits option.splits)

lemma new_name_validation_failure_makes_no_client_call:
  assumes "validate_collection_name env n' = Some e"
  shows "fst (rename_collection_impl env n n') = []"
  using assms
  by (cases "validate_collection_name env n") (simp_all add: impl_eqs body_defs)

lemma validation_error_handled_where_caught:
  assumes "validate_collection_name env n = Some e" "isinstance e ValidationError"
  shows "create_collection_impl env n
           = ([], Inl (mcp_error INVALID_PARAMS (''Validation Error: '' @ exc_str e)))"
    and "rename_collection_impl env n n'
           = ([], Inl (mcp_error INVALID_PARAMS (''Validation Error: '' @ exc_str e)))"
    and "\<exists>msg. create_collection_with_metadata_impl env n s
           = ([], Inl (mcp_error INVALID_PARAMS msg))"
  using assms
  by (auto simp: impl_eqs body_defs parse_metadata_eq create_collection_handler_def
      rename_collection_handler_def create_collection_with_metadata_handler_def mcp_error_def
      split: sum.splits json.splits)

text \<open>
  C6 on the code. Get collection, delete collection and peek collection have no
  \<open>except ValidationError\<close> clause: a \<open>ValidationError\<close> that is not a \<open>ValueError\<close>,
  raised by \<open>validate_collection_name\<close>, reaches \<open>except Exception\<close> and the operation
  raises McpError with code INTERNAL_ERROR (no call into the client has been made).
\<close>

theorem validation_error_is_internal_error_in_get_delete_peek:
  "get_collection_impl (mock_validate_raises (PyError [ValidationError] ''Invalid collection name''))
       ''invalid-''
     = ([], Inl (mcp_error INTERNAL_ERROR
          (''Tool Error: An unexpected error occurred while getting collection ''
             @ quoted ''invalid-'' @ ''. Details: Invalid collection name'')))
   \<and> delete_collection_impl
         (mock_validate_raises (PyError [ValidationError] ''Invalid collection name'')) ''invalid-''
     = ([], Inl (mcp_error INTERNAL_ERROR
          (''Tool Error: An unexpected error occurred deleting collection ''
             @ quoted ''invalid-'' @ ''. Details: Invalid collection name'')))
   \<and> peek_collection_impl
         (mock_validate_raises (PyError [ValidationError] ''Invalid collection name'')) ''invalid-''
         None
     = ([], Inl (mcp_error INTERNAL_ERROR
          (''Tool Error: An unexpected error occurred peeking collection ''
             @ quoted ''invalid-'' @ ''. Details: Invalid collection name'')))
   \<and> INTERNAL_ERROR \<noteq> INVALID_PARAMS"
  by (simp add: impl_eqs body_defs mock_defs get_collection_handler_def
      delete_collection_handler_def peek_collection_handler_def INTERNAL_ERROR_def
      INVALID_PARAMS_def)

section \<open>The metadata string of create collection with metadata\<close>



section \<open>Filtering and pagination of list collections\<close>

lemma filter_names_eq_spec: "filter_names name_contains names = spec_filtered name_contains names"
  by (auto simp: filter_names_def spec_filtered_def split: option.splits list.splits)

lemma take_min_length: "take (min l (length ys)) ys = take l ys"
  by (cases "l \<le> length ys") (simp_all add: min_def)

lemma py_slice_open_end:
  assumes "0 \<le> a"
  shows "py_slice xs a None = drop (nat a) xs"
proof (cases "a \<le> int (length xs)")
  case True
  with assms show ?thesis
    by (simp add: py_slice_def clamp_index_def Let_def min_def)
next
  case False
  with assms show ?thesis
    by (simp add: py_slice_def clamp_index_def Let_def min_def)
qed

lemma py_slice_window:
  assumes "0 \<le> a" "0 \<le> l"
  shows "py_slice xs a (Some (a + l)) = take (nat l) (drop (nat a) xs)"
proof (cases "a \<le> int (length xs)")
  case True
  let ?ys = "drop (nat a) xs"
  from True assms have len: "length ?ys = nat (int (length xs) - a)"
    by simp
  from True assms have "py_slice xs a (Some (a + l))
      = take (nat (min (a + l) (int (length xs)) - a)) ?ys"
    by (simp add: py_slice_def clamp_index_def Let_def min_def)
  also from True assms have "nat (min (a + l) (int (length xs)) - a) = min (nat l) (length ?ys)"
    unfolding len by arith
  also have "take (min (nat l) (length ?ys)) ?ys = take (nat l) ?ys"
    by (rule take_min_length)
  finally show ?thesis .
next
  case False
  with assms show ?thesis
    by (simp add: py_slice_def clamp_index_def Let_def min_def)
qed

text \<open>
  C8. When the client returns a list of names, list collections makes the single call
  list_collections and returns one text content holding the serialised dictionary whose
  \<open>collection_names\<close> is the filtered list sliced as \<open>filtered[offset : offset + limit]\<close>
  (offset 0 when absent, no upper end when limit is absent; limit and offset are not
  negative), whose \<open>total_count\<close> is the length of the filtered list before pagination,
  and where the filtered list keeps, in order, the names whose lower-cased form contains
  the lower-cased \<open>name_contains\<close> (all names when \<open>name_contains\<close> is absent or empty).
\<close>

theorem list_collections_filters_then_paginates:
  assumes "get_chroma_client env = None" "list_collections env = Inr names"
    and "\<forall>i. offset = Some i \<longrightarrow> 0 \<le> i" "\<forall>l. limit = Some l \<longrightarrow> 0 \<le> l"
  shows "list_collections_impl env limit offset name_contains =
     ([ListCollections], Inr (text_result (json_dumps (Some 2) (JDict
        [(''collection_names'',
            JList (map JStr (spec_page limit offset (spec_filtered name_contains names)))),
         (''total_count'', JInt (int (length (spec_filtered name_contains names)))),
         (''limit'', opt_int limit),
         (''offset'', opt_int offset)]))))"
proof -
  let ?f = "spec_filtered name_contains names"
  have page: "py_slice ?f
      (if (case offset of Some i \<Rightarrow> i | None \<Rightarrow> 0) < 0 then 0
       else (case offset of Some i \<Rightarrow> i | None \<Rightarrow> 0))
      (case limit of Some l \<Rightarrow> Some ((case offset of Some i \<Rightarrow> i | None \<Rightarrow> 0) + l)
                   | None \<Rightarrow> None)
    = spec_page limit offset ?f"
  proof -
    define a where "a = (case offset of Some i \<Rightarrow> i | None \<Rightarrow> 0)"
    from assms(3) have a: "0 \<le> a"
      by (cases offset) (simp_all add: a_def)
    show ?thesis
    proof (cases limit)
      case None
      with a show ?thesis
        by (simp add: spec_page_def py_slice_open_end a_def[symmetric])
    next
      case (Some l)
      with assms(4) have "0 \<le> l" by simp
      with a Some show ?thesis
        by (simp add: spec_page_def py_slice_window a_def[symmetric])
    qed
  qed
  from assms(1,2) show ?thesis
    by (simp add: impl_eqs list_collections_body_def list_collections_result_def Let_def
        filter_names_eq_spec page)
qed

lemma lower_ap: "lower ''ap'' = ''ap''"
  by code_simp

lemma lower_fruit:
  "lower ''apple'' = ''apple''" "lower ''banana'' = ''banana''"
  "lower ''apricot'' = ''apricot''" "lower ''avocado'' = ''avocado''"
  by code_simp+

theorem list_collections_filters_then_paginates_witness:
  "list_collections_impl (mock_list_returns [''apple'', ''banana'', ''apricot'', ''avocado''])
       (Some 2) (Some 1) (Some ''ap'')
     = ([ListCollections], Inr (text_result (json_dumps (Some 2) (JDict
          [(''collection_names'', JList [JStr ''apricot'']),
           (''total_count'', JInt 2),
           (''limit'', JInt 2),
           (''offset'', JInt 1)]))))"
proof -
  have f: "spec_filtered (Some ''ap'') [''apple'', ''banana'', ''apricot'', ''avocado'']
             = [''apple'', ''apricot'']"
    by (simp add: spec_filtered_def lower_ap lower_fruit sublist_Cons_right)
  show ?thesis
    using list_collections_filters_then_paginates[
        of "mock_list_returns [''apple'', ''banana'', ''apricot'', ''avocado'']"
           "[''apple'', ''banana'', ''apricot'', ''avocado'']" "Some 1" "Some 2" "Some ''ap''"]
    by (simp add: mock_defs f spec_page_def opt_int_def)
qed

section \<open>Get collection and a failing peek\<close>








section \<open>The error envelope of the handlers\<close>









section \<open>The encoder writes JSON\<close>


lemma json_run_append:
  "json_run cfg (a @ b) = (case json_run cfg a of None \<Rightarrow> None | Some cfg' \<Rightarrow> json_run cfg' b)"
  by (induction a arbitrary: cfg) (auto split: option.splits)

lemma json_run_append_Some:
  "json_run cfg a = Some cfg' \<Longrightarrow> json_run cfg (a @ b) = json_run cfg' b"
  by (simp add: json_run_append)






















section \<open>What a successful operation returns\<close>





end
